theory Spec2Isabelle
  imports Complex_Main
begin

section \<open>Cash-flow projection engine (calculations.py)\<close>

text \<open>
  A shallow embedding of \<^verbatim>\<open>src/calculations.py\<close>. Python numbers are read as exact
  real numbers (rounding and overflow of binary floating point are not modelled); month
  counts and month indices are Python integers. The dictionaries of the source have a
  fixed set of keys and become records; a key the source reads with
  \<^verbatim>\<open>inputs.get(key, 0)\<close> is an optional field. The one exception exact arithmetic
  can raise in the source, a zero base under a negative exponent in the annuity formula,
  is a value of the result type. The OverflowError of a floating-point power that leaves
  the range of the format has no counterpart over the reals: what is proved about a run
  is therefore proved about the table it returns, and no theorem says that a run returns.
\<close>

datatype error = ZeroDivisionError

subsection \<open>Data\<close>

text \<open>The dictionary returned by \<^verbatim>\<open>calculate_wc_components\<close>.\<close>

record wc_components =
  ar :: real
  inventory :: real
  ap :: real

text \<open>The \<^verbatim>\<open>debt_params\<close> dictionary, as app.py builds it.\<close>

record debt_params =
  loan_amount :: real
  interest_rate :: real
  term_months :: int
  monthly_payment :: real

text \<open>The dictionary returned by \<^verbatim>\<open>calculate_debt_service\<close>.\<close>

record debt_service =
  interest_expense :: real
  principal_payment :: real
  remaining_balance :: real

text \<open>The dictionary returned by \<^verbatim>\<open>calculate_tier1_metrics\<close>.\<close>

record tier1_metrics =
  current_ratio :: real
  quick_ratio :: real
  days_cash_on_hand :: real
  operating_margin :: real

text \<open>
  The \<^verbatim>\<open>inputs\<close> dictionary. The four keys read with a default
  (\<^verbatim>\<open>price_increase\<close>, \<^verbatim>\<open>cogs_increase\<close>, \<^verbatim>\<open>opex_increase\<close>,
  \<^verbatim>\<open>opening_cash\<close>) may be absent.
\<close>

record inputs =
  revenue :: real
  cogs_pct :: real
  cogs_increase :: "real option"
  opex :: real
  opex_increase :: "real option"
  tax_rate :: real
  ar_days :: real
  ap_days :: real
  inventory_days :: real
  capex :: real
  depreciation :: real
  price_increase :: "real option"
  opening_cash :: "real option"

text \<open>One row of the returned table, with the keys of the source in their order.\<close>

record month_record =
  month :: int
  revenue :: real
  cogs :: real
  ebit :: real
  interest_expense :: real
  ebit_after_interest :: real
  ebit_after_tax :: real
  ar :: real
  inventory :: real
  ap :: real
  wc :: real
  delta_wc :: real
  delta_ar :: real
  delta_inventory :: real
  delta_ap :: real
  fcf :: real
  principal_payment :: real
  fcf_after_debt :: real
  debt_balance :: real
  dscr :: real
  cash_balance :: real
  ccc :: real
  gross_margin :: real
  current_ratio :: real
  quick_ratio :: real
  days_cash_on_hand :: real
  operating_margin :: real

text \<open>The variables the loop of \<^verbatim>\<open>generate_monthly_projections\<close> carries from one
  month to the next.\<close>

record loop_state =
  wc_previous :: real
  ar_previous :: real
  inventory_previous :: real
  ap_previous :: real
  cash_balance :: real

subsection \<open>The calculators\<close>

text \<open>\<^verbatim>\<open>d.get(key, default)\<close> on an optional field.\<close>

definition get_default :: "'a option \<Rightarrow> 'a \<Rightarrow> 'a" where
  "get_default v d = (case v of None \<Rightarrow> d | Some x \<Rightarrow> x)"

definition calculate_wc_components ::
  "real \<Rightarrow> real \<Rightarrow> real \<Rightarrow> real \<Rightarrow> real \<Rightarrow> wc_components" where
  "calculate_wc_components = (\<lambda>revenue cogs_pct ar_days ap_days inventory_days.
      let cogs = revenue * cogs_pct;
          ar = (revenue / 30) * ar_days;
          inventory = (cogs / 30) * inventory_days;
          ap = (cogs / 30) * ap_days
      in \<lparr>wc_components.ar = ar, wc_components.inventory = inventory,
          wc_components.ap = ap\<rparr>)"

definition calculate_ebit :: "real \<Rightarrow> real \<Rightarrow> real \<Rightarrow> real" where
  "calculate_ebit = (\<lambda>revenue cogs_pct opex.
      let cogs = revenue * cogs_pct in revenue - cogs - opex)"

definition calculate_working_capital :: "real \<Rightarrow> real \<Rightarrow> real \<Rightarrow> real" where
  "calculate_working_capital = (\<lambda>ar inventory ap. (ar + inventory) - ap)"

definition calculate_delta_wc :: "real \<Rightarrow> real option \<Rightarrow> real" where
  "calculate_delta_wc = (\<lambda>wc_current wc_previous.
      case wc_previous of None \<Rightarrow> wc_current | Some p \<Rightarrow> wc_current - p)"

definition calculate_fcf :: "real \<Rightarrow> real \<Rightarrow> real \<Rightarrow> real \<Rightarrow> real \<Rightarrow> real" where
  "calculate_fcf = (\<lambda>ebit tax_rate depreciation capex delta_wc.
      let nopat = ebit * (1 - tax_rate) in nopat + depreciation - capex - delta_wc)"

definition no_debt_service :: debt_service where
  "no_debt_service =
     \<lparr>debt_service.interest_expense = 0, debt_service.principal_payment = 0,
      remaining_balance = 0\<rparr>"

text \<open>
  \<^verbatim>\<open>calculate_debt_service\<close>. In the branch with interest the source evaluates
  \<^verbatim>\<open>(1 + monthly_rate) ** (-months_remaining)\<close> with a positive
  \<^verbatim>\<open>months_remaining\<close>; Python raises ZeroDivisionError there when the base is
  zero, before anything else of the branch is computed.
\<close>

definition calculate_debt_service :: "debt_params option \<Rightarrow> int \<Rightarrow> error + debt_service" where
  "calculate_debt_service = (\<lambda>debt_params month.
      case debt_params of
        None \<Rightarrow> Inr no_debt_service
      | Some dp \<Rightarrow>
          if month > term_months dp then Inr no_debt_service
          else
            let monthly_rate = interest_rate dp / 12;
                months_remaining = term_months dp - month + 1
            in if months_remaining \<le> 0 then Inr no_debt_service
               else if monthly_rate = 0 then
                 let remaining_balance =
                       loan_amount dp - (monthly_payment dp * of_int (month - 1))
                 in Inr \<lparr>debt_service.interest_expense = 0,
                         debt_service.principal_payment = monthly_payment dp,
                         remaining_balance = max 0 remaining_balance\<rparr>
               else if 1 + monthly_rate = 0 then Inl ZeroDivisionError
               else
                 let remaining_balance =
                       monthly_payment dp *
                         ((1 - (1 + monthly_rate) powi (- months_remaining)) / monthly_rate);
                     prev_balance =
                       (if month > 1
                        then monthly_payment dp *
                               ((1 - (1 + monthly_rate) powi (- (months_remaining + 1)))
                                  / monthly_rate)
                        else loan_amount dp);
                     interest_expense = prev_balance * monthly_rate;
                     principal_payment = monthly_payment dp - interest_expense
                 in Inr \<lparr>debt_service.interest_expense = interest_expense,
                         debt_service.principal_payment = principal_payment,
                         remaining_balance = remaining_balance\<rparr>)"

definition calculate_tier1_metrics ::
  "real \<Rightarrow> real \<Rightarrow> real \<Rightarrow> real \<Rightarrow> real \<Rightarrow> real \<Rightarrow> real \<Rightarrow> tier1_metrics" where
  "calculate_tier1_metrics = (\<lambda>revenue ebit ar inventory ap cash_balance opex.
      let current_assets = ar + inventory + cash_balance;
          current_liabilities = (if ap > 0 then ap else 1);
          current_ratio = current_assets / current_liabilities;
          quick_ratio = (current_assets - inventory) / current_liabilities;
          days_cash_on_hand = (if opex > 0 then cash_balance / (opex / 30) else 0);
          operating_margin = (if revenue > 0 then ebit / revenue * 100 else 0)
      in \<lparr>tier1_metrics.current_ratio = current_ratio,
          tier1_metrics.quick_ratio = quick_ratio,
          tier1_metrics.days_cash_on_hand = days_cash_on_hand,
          tier1_metrics.operating_margin = operating_margin\<rparr>)"

text \<open>\<^verbatim>\<open>apply_scenario_adjustments\<close>: the copy of the dictionary with three keys
  rewritten; \<^verbatim>\<open>'base'\<close> and any unrecognised kind return the copy unchanged.\<close>

definition apply_scenario_adjustments :: "inputs \<Rightarrow> string \<Rightarrow> inputs" where
  "apply_scenario_adjustments base_inputs scenario_type =
     (if scenario_type = ''base'' then base_inputs
      else if scenario_type = ''conservative'' then
        base_inputs\<lparr>ar_days := ar_days base_inputs + 10,
                     ap_days := max 0 (ap_days base_inputs - 5),
                     inventory_days := inventory_days base_inputs * 1.15\<rparr>
      else if scenario_type = ''aggressive'' then
        base_inputs\<lparr>ar_days := max 0 (ar_days base_inputs - 10),
                     ap_days := ap_days base_inputs + 10,
                     inventory_days := inventory_days base_inputs * 0.85\<rparr>
      else base_inputs)"

subsection \<open>The projection engine\<close>

text \<open>
  The debt service the loop uses: month 0 never calls the calculator and reports the whole
  loan as outstanding.
\<close>

definition month_debt_service :: "debt_params option \<Rightarrow> int \<Rightarrow> error + debt_service" where
  "month_debt_service = (\<lambda>debt_params month.
      if month > 0 then calculate_debt_service debt_params month
      else Inr \<lparr>debt_service.interest_expense = 0, debt_service.principal_payment = 0,
                remaining_balance =
                  (case debt_params of Some dp \<Rightarrow> loan_amount dp | None \<Rightarrow> 0)\<rparr>)"

text \<open>
  One pass through the body of the loop, for the given month: the row appended to the
  results and the carried variables after the pass. \<^verbatim>\<open>x ** month\<close> has a
  non-negative integer exponent here.
\<close>

definition month_step ::
  "inputs \<Rightarrow> debt_params option \<Rightarrow> loop_state \<Rightarrow> int \<Rightarrow> error + (month_record \<times> loop_state)" where
  "month_step = (\<lambda>inputs debt_params st month.
      let base_revenue = inputs.revenue inputs;
          price_increase = get_default (price_increase inputs) 0;
          base_cogs_pct = cogs_pct inputs;
          cogs_increase = get_default (cogs_increase inputs) 0;
          base_opex = opex inputs;
          opex_increase = get_default (opex_increase inputs) 0;
          current_revenue = base_revenue * ((1 + price_increase) powi month);
          current_cogs_pct = min (base_cogs_pct * ((1 + cogs_increase) powi month)) 0.95;
          current_opex = base_opex * ((1 + opex_increase) powi month)
      in case month_debt_service debt_params month of
           Inl e \<Rightarrow> Inl e
         | Inr debt_service \<Rightarrow>
            (let ebit = calculate_ebit current_revenue current_cogs_pct current_opex;
                 ebit_after_interest = ebit - debt_service.interest_expense debt_service;
                 ebit_after_tax = ebit_after_interest * (1 - tax_rate inputs);
                 cogs = current_revenue * current_cogs_pct;
                 gross_margin =
                   (if current_revenue > 0
                    then (current_revenue - cogs) / current_revenue * 100 else 0);
                 wc_components =
                   calculate_wc_components current_revenue current_cogs_pct
                     (ar_days inputs) (ap_days inputs) (inventory_days inputs);
                 wc = calculate_working_capital (wc_components.ar wc_components)
                        (wc_components.inventory wc_components)
                        (wc_components.ap wc_components);
                 delta_wc =
                   (if month = 0 then 0 else calculate_delta_wc wc (Some (wc_previous st)));
                 delta_ar =
                   (if month = 0 then 0 else wc_components.ar wc_components - ar_previous st);
                 delta_inventory =
                   (if month = 0 then 0
                    else wc_components.inventory wc_components - inventory_previous st);
                 delta_ap =
                   (if month = 0 then 0 else wc_components.ap wc_components - ap_previous st);
                 fcf = calculate_fcf ebit_after_interest (tax_rate inputs)
                         (depreciation inputs) (capex inputs) delta_wc;
                 fcf_after_debt = fcf - debt_service.principal_payment debt_service;
                 cash_balance =
                   (if month > 0 then loop_state.cash_balance st + fcf_after_debt
                    else loop_state.cash_balance st);
                 ccc = ar_days inputs + inventory_days inputs - ap_days inputs;
                 tier1 = calculate_tier1_metrics current_revenue ebit
                           (wc_components.ar wc_components)
                           (wc_components.inventory wc_components)
                           (wc_components.ap wc_components) cash_balance current_opex;
                 total_service = debt_service.interest_expense debt_service
                                   + debt_service.principal_payment debt_service;
                 dscr =
                   (if debt_params \<noteq> None \<and> month > 0 \<and> total_service > 0
                    then fcf / total_service else 0)
             in Inr (\<lparr>month = month,
                      month_record.revenue = current_revenue,
                      cogs = cogs,
                      ebit = ebit,
                      month_record.interest_expense = debt_service.interest_expense debt_service,
                      ebit_after_interest = ebit_after_interest,
                      ebit_after_tax = ebit_after_tax,
                      month_record.ar = wc_components.ar wc_components,
                      month_record.inventory = wc_components.inventory wc_components,
                      month_record.ap = wc_components.ap wc_components,
                      wc = wc,
                      delta_wc = delta_wc,
                      delta_ar = delta_ar,
                      delta_inventory = delta_inventory,
                      delta_ap = delta_ap,
                      fcf = fcf,
                      month_record.principal_payment =
                        debt_service.principal_payment debt_service,
                      fcf_after_debt = fcf_after_debt,
                      debt_balance = remaining_balance debt_service,
                      dscr = dscr,
                      month_record.cash_balance = cash_balance,
                      ccc = ccc,
                      gross_margin = gross_margin,
                      month_record.current_ratio = tier1_metrics.current_ratio tier1,
                      month_record.quick_ratio = tier1_metrics.quick_ratio tier1,
                      month_record.days_cash_on_hand = tier1_metrics.days_cash_on_hand tier1,
                      month_record.operating_margin = tier1_metrics.operating_margin tier1\<rparr>,
                     \<lparr>wc_previous = wc,
                      ar_previous = wc_components.ar wc_components,
                      inventory_previous = wc_components.inventory wc_components,
                      ap_previous = wc_components.ap wc_components,
                      loop_state.cash_balance = cash_balance\<rparr>)))"

text \<open>The loop over the months: an exception in one pass ends the whole run.\<close>

fun projection_loop ::
  "inputs \<Rightarrow> debt_params option \<Rightarrow> loop_state \<Rightarrow> int list \<Rightarrow> error + month_record list" where
  "projection_loop inputs debt_params st [] = Inr []"
| "projection_loop inputs debt_params st (m # ms) =
     (case month_step inputs debt_params st m of
        Inl e \<Rightarrow> Inl e
      | Inr (row, st') \<Rightarrow>
          (case projection_loop inputs debt_params st' ms of
             Inl e \<Rightarrow> Inl e
           | Inr rows \<Rightarrow> Inr (row # rows)))"

text \<open>The carried variables before the first pass: working capital at the base revenue
  and cost ratio, and the opening cash.\<close>

definition initial_state :: "inputs \<Rightarrow> loop_state" where
  "initial_state inputs =
     (let initial_wc = calculate_wc_components (inputs.revenue inputs) (cogs_pct inputs)
                         (ar_days inputs) (ap_days inputs) (inventory_days inputs)
      in \<lparr>wc_previous = calculate_working_capital (wc_components.ar initial_wc)
                           (wc_components.inventory initial_wc) (wc_components.ap initial_wc),
          ar_previous = wc_components.ar initial_wc,
          inventory_previous = wc_components.inventory initial_wc,
          ap_previous = wc_components.ap initial_wc,
          loop_state.cash_balance = get_default (opening_cash inputs) 0\<rparr>)"

text \<open>\<^verbatim>\<open>generate_monthly_projections\<close>: \<^verbatim>\<open>range(0, num_months + 1)\<close> is the
  list \<open>[0..num_months]\<close>, empty when \<open>num_months\<close> is negative.\<close>

definition generate_monthly_projections ::
  "inputs \<Rightarrow> int \<Rightarrow> debt_params option \<Rightarrow> error + month_record list" where
  "generate_monthly_projections inputs num_months debt_params =
     projection_loop inputs debt_params (initial_state inputs) [0..num_months]"


subsection \<open>Example data\<close>

text \<open>The parameters of the worked example: no debt, and the keys
  \<^verbatim>\<open>cogs_increase\<close> and \<^verbatim>\<open>opex_increase\<close> left out.\<close>

definition example_inputs :: inputs where
  "example_inputs =
     \<lparr>inputs.revenue = 100000, cogs_pct = 0.60, cogs_increase = None, opex = 20000,
      opex_increase = None, tax_rate = 0.25, ar_days = 45, ap_days = 30,
      inventory_days = 60, capex = 5000, depreciation = 4000,
      price_increase = Some 0.10, opening_cash = Some 100000\<rparr>"

definition example_month_0 :: month_record where
  "example_month_0 =
     \<lparr>month = 0, month_record.revenue = 100000, cogs = 60000, ebit = 20000,
      month_record.interest_expense = 0, ebit_after_interest = 20000,
      ebit_after_tax = 15000, month_record.ar = 150000, month_record.inventory = 120000,
      month_record.ap = 60000, wc = 210000, delta_wc = 0, delta_ar = 0,
      delta_inventory = 0, delta_ap = 0, fcf = 14000,
      month_record.principal_payment = 0, fcf_after_debt = 14000, debt_balance = 0,
      dscr = 0, month_record.cash_balance = 100000, ccc = 75, gross_margin = 40,
      month_record.current_ratio = 37 / 6, month_record.quick_ratio = 25 / 6,
      month_record.days_cash_on_hand = 150, month_record.operating_margin = 20\<rparr>"

definition example_month_1 :: month_record where
  "example_month_1 =
     \<lparr>month = 1, month_record.revenue = 110000, cogs = 66000, ebit = 24000,
      month_record.interest_expense = 0, ebit_after_interest = 24000,
      ebit_after_tax = 18000, month_record.ar = 165000, month_record.inventory = 132000,
      month_record.ap = 66000, wc = 231000, delta_wc = 21000, delta_ar = 15000,
      delta_inventory = 12000, delta_ap = 6000, fcf = - 4000,
      month_record.principal_payment = 0, fcf_after_debt = - 4000, debt_balance = 0,
      dscr = 0, month_record.cash_balance = 96000, ccc = 75, gross_margin = 40,
      month_record.current_ratio = 131 / 22, month_record.quick_ratio = 87 / 22,
      month_record.days_cash_on_hand = 144, month_record.operating_margin = 240 / 11\<rparr>"

text \<open>A loan without interest: 1200 over 12 months, paid back 100 a month, and the
  same loan at the annual rate \<open>-12\<close>, whose monthly rate is \<open>-1\<close>.\<close>

definition zero_rate_loan :: debt_params where
  "zero_rate_loan =
     \<lparr>loan_amount = 1200, interest_rate = 0, term_months = 12, monthly_payment = 100\<rparr>"

definition degenerate_loan :: debt_params where
  "degenerate_loan =
     \<lparr>loan_amount = 1200, interest_rate = - 12, term_months = 12, monthly_payment = 100\<rparr>"

section \<open>Properties\<close>

subsection \<open>One pass of the loop\<close>

lemma month_step_month:
  "month_step inputs d st m = Inr (r, st') \<Longrightarrow> month r = m"
  by (auto simp: month_step_def Let_def split: sum.splits)

lemma month_step_cash:
  "month_step inputs d st m = Inr (r, st') \<Longrightarrow>
     loop_state.cash_balance st' = month_record.cash_balance r \<and>
     month_record.cash_balance r =
       (if m > 0 then loop_state.cash_balance st + fcf_after_debt r
        else loop_state.cash_balance st)"
  by (auto simp: month_step_def Let_def split: sum.splits)

lemma month_step_fcf:
  "month_step inputs d st m = Inr (r, st') \<Longrightarrow>
     ebit_after_tax r = ebit_after_interest r * (1 - tax_rate inputs) \<and>
     fcf r = calculate_fcf (ebit_after_interest r) (tax_rate inputs) (depreciation inputs)
               (capex inputs) (delta_wc r)"
  by (auto simp: month_step_def Let_def split: sum.splits)

lemma month_step_zero:
  "month_step inputs d st 0 = Inr (r, st') \<Longrightarrow>
     delta_wc r = 0 \<and> delta_ar r = 0 \<and> delta_inventory r = 0 \<and> delta_ap r = 0 \<and>
     month_record.cash_balance r = loop_state.cash_balance st"
  by (auto simp: month_step_def Let_def split: sum.splits)

lemma month_step_cogs:
  "month_step inputs d st m = Inr (r, st') \<Longrightarrow>
     cogs r = month_record.revenue r *
       min (cogs_pct inputs * ((1 + get_default (cogs_increase inputs) 0) powi m)) 0.95"
  by (auto simp: month_step_def Let_def split: sum.splits)

text \<open>When a pass raises: only through the annuity formula, at a month inside the term
  of a loan whose monthly rate is \<open>-1\<close>.\<close>

lemma error_unique: "(e::error) = ZeroDivisionError"
  by (cases e)

lemma calculate_debt_service_error:
  "calculate_debt_service d m = Inl e \<longleftrightarrow>
     (\<exists>dp. d = Some dp \<and> m \<le> term_months dp \<and> interest_rate dp = - 12)"
  using error_unique [of e]
  by (auto simp: calculate_debt_service_def Let_def no_debt_service_def split: option.splits)

lemma month_debt_service_error:
  "month_debt_service d m = Inl e \<longleftrightarrow>
     (\<exists>dp. d = Some dp \<and> 0 < m \<and> m \<le> term_months dp \<and> interest_rate dp = - 12)"
  by (auto simp: month_debt_service_def calculate_debt_service_error)

lemma month_step_error:
  "month_step inputs d st m = Inl e \<longleftrightarrow>
     (\<exists>dp. d = Some dp \<and> 0 < m \<and> m \<le> term_months dp \<and> interest_rate dp = - 12)"
  unfolding month_debt_service_error [symmetric, of d m e]
  by (auto simp: month_step_def Let_def split: sum.splits)

subsection \<open>The loop\<close>

lemma projection_loop_Cons:
  "projection_loop inputs d st (m # ms) = Inr rs \<Longrightarrow>
     \<exists>r st' rs'. month_step inputs d st m = Inr (r, st') \<and>
        projection_loop inputs d st' ms = Inr rs' \<and> rs = r # rs'"
  by (auto split: sum.splits)

lemma projection_loop_months:
  "projection_loop inputs d st ms = Inr rs \<Longrightarrow> map month rs = ms"
proof (induction ms arbitrary: st rs)
  case Nil
  then show ?case by simp
next
  case (Cons m ms)
  from projection_loop_Cons [OF Cons.prems] obtain r st' rs' where
    step: "month_step inputs d st m = Inr (r, st')" and
    rest: "projection_loop inputs d st' ms = Inr rs'" and rs: "rs = r # rs'"
    by blast
  from step have "month r = m" by (rule month_step_month)
  moreover from rest have "map month rs' = ms" by (rule Cons.IH)
  ultimately show ?case using rs by simp
qed

text \<open>Every row of the result is the row of one pass, for the month it carries.\<close>

lemma projection_loop_row:
  "projection_loop inputs d st ms = Inr rs \<Longrightarrow> r \<in> set rs \<Longrightarrow>
     \<exists>st0 st1. month_step inputs d st0 (month r) = Inr (r, st1)"
proof (induction ms arbitrary: st rs)
  case Nil
  then show ?case by simp
next
  case (Cons m ms)
  from projection_loop_Cons [OF Cons.prems(1)] obtain r0 st' rs' where
    step: "month_step inputs d st m = Inr (r0, st')" and
    rest: "projection_loop inputs d st' ms = Inr rs'" and rs: "rs = r0 # rs'"
    by blast
  show ?case
  proof (cases "r = r0")
    case True
    with step month_step_month [OF step] show ?thesis by blast
  next
    case False
    with Cons.prems(2) rs have "r \<in> set rs'" by simp
    with rest show ?thesis by (rule Cons.IH)
  qed
qed

text \<open>The cash balance of a row is the balance carried into its pass (the balance of the
  row before, or the starting balance) plus, after month 0, its cash flow after debt.\<close>

lemma projection_loop_cash:
  "projection_loop inputs d st ms = Inr rs \<Longrightarrow> k < length rs \<Longrightarrow>
     month_record.cash_balance (rs ! k) =
       (if k = 0 then loop_state.cash_balance st else month_record.cash_balance (rs ! (k - 1)))
       + (if ms ! k > 0 then fcf_after_debt (rs ! k) else 0)"
proof (induction ms arbitrary: st rs k)
  case Nil
  then show ?case by simp
next
  case (Cons m ms)
  from projection_loop_Cons [OF Cons.prems(1)] obtain r0 st' rs' where
    step: "month_step inputs d st m = Inr (r0, st')" and
    rest: "projection_loop inputs d st' ms = Inr rs'" and rs: "rs = r0 # rs'"
    by blast
  note c = month_step_cash [OF step]
  show ?case
  proof (cases k)
    case 0
    with c rs show ?thesis by simp
  next
    case (Suc j)
    with Cons.prems(2) rs have j: "j < length rs'" by simp
    from Cons.IH [OF rest j] c Suc rs show ?thesis
      by (cases j) simp_all
  qed
qed

text \<open>The loop ends in ZeroDivisionError exactly when one of its months lies inside the
  term of a loan whose annual rate is \<open>-12\<close>.\<close>

lemma projection_loop_error:
  "projection_loop inputs d st ms = Inl e \<longleftrightarrow>
     (\<exists>dp. d = Some dp \<and> interest_rate dp = - 12 \<and>
        (\<exists>m \<in> set ms. 0 < m \<and> m \<le> term_months dp))"
proof (induction ms arbitrary: st)
  case Nil
  show ?case by simp
next
  case (Cons m ms)
  show ?case
  proof (cases "month_step inputs d st m")
    case (Inl e')
    then have "projection_loop inputs d st (m # ms) = Inl e"
      using error_unique [of e] error_unique [of e'] by simp
    moreover have "\<exists>dp. d = Some dp \<and> 0 < m \<and> m \<le> term_months dp \<and> interest_rate dp = - 12"
      using Inl month_step_error [of inputs d st m e'] by simp
    ultimately show ?thesis by auto
  next
    case (Inr p)
    obtain r st' where p: "p = (r, st')" by (cases p)
    have no: "\<not> (\<exists>dp. d = Some dp \<and> 0 < m \<and> m \<le> term_months dp \<and> interest_rate dp = - 12)"
      using Inr month_step_error [of inputs d st m e] by simp
    have "projection_loop inputs d st (m # ms) = Inl e \<longleftrightarrow>
            projection_loop inputs d st' ms = Inl e"
      using Inr p by (simp split: sum.splits)
    also have "\<dots> \<longleftrightarrow> (\<exists>dp. d = Some dp \<and> interest_rate dp = - 12 \<and>
        (\<exists>k \<in> set ms. 0 < k \<and> k \<le> term_months dp))"
      by (rule Cons.IH)
    also have "\<dots> \<longleftrightarrow> (\<exists>dp. d = Some dp \<and> interest_rate dp = - 12 \<and>
        (\<exists>k \<in> set (m # ms). 0 < k \<and> k \<le> term_months dp))"
      using no by auto
    finally show ?thesis .
  qed
qed

text \<open>Two parameter records on which every pass agrees give the same loop.\<close>

lemma projection_loop_cong:
  "(\<And>st m. month_step a d st m = month_step b d st m) \<Longrightarrow>
     projection_loop a d st ms = projection_loop b d st ms"
proof (induction ms arbitrary: st)
  case Nil
  show ?case by simp
next
  case (Cons m ms)
  have "projection_loop a d st' ms = projection_loop b d st' ms" for st'
    using Cons.prems by (rule Cons.IH)
  then show ?case
    by (simp add: Cons.prems cong: sum.case_cong prod.case_cong)
qed

text \<open>An absent optional key and the same key with the value 0 give the same pass and
  the same starting state.\<close>

lemma month_step_price_increase:
  "month_step (inputs\<lparr>price_increase := None\<rparr>) d st m
     = month_step (inputs\<lparr>price_increase := Some 0\<rparr>) d st m"
  by (cases "month_debt_service d m") (simp_all add: month_step_def get_default_def Let_def)

lemma month_step_cogs_increase:
  "month_step (inputs\<lparr>cogs_increase := None\<rparr>) d st m
     = month_step (inputs\<lparr>cogs_increase := Some 0\<rparr>) d st m"
  by (cases "month_debt_service d m") (simp_all add: month_step_def get_default_def Let_def)

lemma month_step_opex_increase:
  "month_step (inputs\<lparr>opex_increase := None\<rparr>) d st m
     = month_step (inputs\<lparr>opex_increase := Some 0\<rparr>) d st m"
  by (cases "month_debt_service d m") (simp_all add: month_step_def get_default_def Let_def)

lemma month_step_opening_cash:
  "month_step (inputs\<lparr>opening_cash := None\<rparr>) d st m
     = month_step (inputs\<lparr>opening_cash := Some 0\<rparr>) d st m"
  by (cases "month_debt_service d m") (simp_all add: month_step_def get_default_def Let_def)

lemma initial_state_price_increase:
  "initial_state (inputs\<lparr>price_increase := None\<rparr>)
     = initial_state (inputs\<lparr>price_increase := Some 0\<rparr>)"
  by (simp add: initial_state_def get_default_def Let_def)

lemma initial_state_cogs_increase:
  "initial_state (inputs\<lparr>cogs_increase := None\<rparr>)
     = initial_state (inputs\<lparr>cogs_increase := Some 0\<rparr>)"
  by (simp add: initial_state_def get_default_def Let_def)

lemma initial_state_opex_increase:
  "initial_state (inputs\<lparr>opex_increase := None\<rparr>)
     = initial_state (inputs\<lparr>opex_increase := Some 0\<rparr>)"
  by (simp add: initial_state_def get_default_def Let_def)

lemma initial_state_opening_cash:
  "initial_state (inputs\<lparr>opening_cash := None\<rparr>)
     = initial_state (inputs\<lparr>opening_cash := Some 0\<rparr>)"
  by (simp add: initial_state_def get_default_def Let_def)

subsection \<open>The whole run\<close>

lemma upto_from_0: "0 \<le> N \<Longrightarrow> [0..N] = 0 # [1..N]"
  by (simp add: upto_rec1)

lemma generate_months:
  "generate_monthly_projections inputs N d = Inr rs \<Longrightarrow> map month rs = [0..N]"
  unfolding generate_monthly_projections_def by (rule projection_loop_months)

lemma generate_length:
  assumes "generate_monthly_projections inputs N d = Inr rs" and "0 \<le> N"
  shows "length rs = nat (N + 1)"
proof -
  from assms(1) have "map month rs = [0..N]" by (rule generate_months)
  then have "length rs = length [0..N]" by (metis length_map)
  then show ?thesis using assms(2) by simp
qed

lemma generate_first:
  assumes "generate_monthly_projections inputs N d = Inr rs" and "0 \<le> N"
  shows "\<exists>st1 rs'. month_step inputs d (initial_state inputs) 0 = Inr (rs ! 0, st1) \<and>
           rs = (rs ! 0) # rs'"
  using assms projection_loop_Cons [of inputs d "initial_state inputs" 0 "[1..N]" rs]
  by (auto simp: generate_monthly_projections_def upto_from_0)

lemma generate_row:
  "generate_monthly_projections inputs N d = Inr rs \<Longrightarrow> r \<in> set rs \<Longrightarrow>
     \<exists>st0 st1. month_step inputs d st0 (month r) = Inr (r, st1)"
  unfolding generate_monthly_projections_def by (rule projection_loop_row)

text \<open>The run ends in ZeroDivisionError exactly when there is a loan with the annual
  rate \<open>-12\<close> and month 1 is both projected and inside the term.\<close>

lemma generate_error:
  "generate_monthly_projections inputs N d = Inl e \<longleftrightarrow>
     (\<exists>dp. d = Some dp \<and> interest_rate dp = - 12 \<and> 1 \<le> N \<and> 1 \<le> term_months dp)"
proof -
  have "(\<exists>m \<in> set [0..N]. 0 < m \<and> m \<le> t) \<longleftrightarrow> 1 \<le> N \<and> 1 \<le> t" for t
  proof
    assume "\<exists>m \<in> set [0..N]. 0 < m \<and> m \<le> t"
    then show "1 \<le> N \<and> 1 \<le> t" by auto
  next
    assume "1 \<le> N \<and> 1 \<le> t"
    then have "1 \<in> set [0..N] \<and> (0::int) < 1 \<and> 1 \<le> t" by simp
    then show "\<exists>m \<in> set [0..N]. 0 < m \<and> m \<le> t" by blast
  qed
  then show ?thesis
    unfolding generate_monthly_projections_def projection_loop_error by simp
qed

lemma generate_cong:
  assumes "\<And>st m. month_step a d st m = month_step b d st m"
    and "initial_state a = initial_state b"
  shows "generate_monthly_projections a N d = generate_monthly_projections b N d"
proof -
  have "projection_loop a d (initial_state b) [0..N]
          = projection_loop b d (initial_state b) [0..N]"
    using assms(1) by (rule projection_loop_cong)
  then show ?thesis
    unfolding generate_monthly_projections_def assms(2) .
qed

lemma upto_0_1: "[0..(1::int)] = [0, 1]"
  by (simp add: upto.simps)

lemma example_projection:
  "generate_monthly_projections example_inputs 1 None = Inr [example_month_0, example_month_1]"
  by (simp add: generate_monthly_projections_def upto_0_1 initial_state_def month_step_def
      month_debt_service_def calculate_debt_service_def no_debt_service_def
      calculate_wc_components_def calculate_working_capital_def calculate_ebit_def
      calculate_delta_wc_def calculate_fcf_def calculate_tier1_metrics_def get_default_def
      example_inputs_def example_month_0_def example_month_1_def Let_def)


section \<open>The claims\<close>

text \<open>
  C1. The worked example: with revenue 100000, cost ratio 0.60, operating expenses 20000,
  45 receivable days, 30 payable days, 60 inventory days, capital expenditure 5000,
  depreciation 4000, tax rate 0.25, price increase 0.10, opening cash 100000, no debt and
  one projected month, the run returns two rows, and the row of month 1 has revenue
  110000, cogs 66000, ebit 24000, ar 165000, inventory 132000, ap 66000, wc 231000,
  delta_wc 21000, fcf -4000 and cash_balance 96000.
\<close>

theorem worked_example_month_1:
  "\<exists>r0 r1. generate_monthly_projections example_inputs 1 None = Inr [r0, r1] \<and>
     month r1 = 1 \<and> month_record.revenue r1 = 110000 \<and> cogs r1 = 66000 \<and>
     ebit r1 = 24000 \<and> month_record.ar r1 = 165000 \<and>
     month_record.inventory r1 = 132000 \<and> month_record.ap r1 = 66000 \<and>
     wc r1 = 231000 \<and> delta_wc r1 = 21000 \<and> fcf r1 = - 4000 \<and>
     month_record.cash_balance r1 = 96000"
  by (simp add: example_projection example_month_1_def)

text \<open>
  C2. The cumulative cash identity: whenever the run returns its rows, for every month
  index \<open>i\<close> from 1 to \<open>num_months\<close> the cash balance of row \<open>i\<close> is the cash balance
  of row \<open>i - 1\<close> plus the cash flow after debt of row \<open>i\<close>.
\<close>

theorem cash_balance_cumulative_identity:
  assumes "generate_monthly_projections inputs N d = Inr rs" and "1 \<le> i" and "i \<le> N"
  shows "month_record.cash_balance (rs ! nat i) =
     month_record.cash_balance (rs ! nat (i - 1)) + fcf_after_debt (rs ! nat i)"
proof -
  have len: "nat i < length rs"
    using generate_length [OF assms(1)] assms(2,3) by simp
  have nth: "[0..N] ! nat i = i"
    using assms(2,3) by simp
  have "nat i \<noteq> 0"
    using assms(2) by simp
  moreover have "nat i - 1 = nat (i - 1)"
    using assms(2) by simp
  ultimately show ?thesis
    using projection_loop_cash [OF assms(1) [unfolded generate_monthly_projections_def] len]
      nth assms(2) by simp
qed

theorem cash_balance_cumulative_identity_witness:
  "generate_monthly_projections example_inputs 1 None = Inr [example_month_0, example_month_1] \<and>
   (1::int) \<le> 1 \<and>
   month_record.cash_balance ([example_month_0, example_month_1] ! nat 1) =
     month_record.cash_balance ([example_month_0, example_month_1] ! nat (1 - 1))
       + fcf_after_debt ([example_month_0, example_month_1] ! nat 1)"
  using cash_balance_cumulative_identity [OF example_projection, of 1] example_projection
  by simp


text \<open>
  C3. Amortization without interest, as the code computes it: for a loan with interest
  rate 0, a term of at least one month, a non-negative amount and
  \<open>monthly_payment = loan_amount / term_months\<close>, the remaining balance reported for
  month \<open>m\<close> of the term is \<open>loan_amount - monthly_payment * (m - 1)\<close>, the balance
  before the payment of that month: the whole loan in month 1, one payment less each
  month after, one payment still outstanding in the last month of the term, and 0 in
  every month after the term.
\<close>

theorem zero_interest_amortization:
  assumes "interest_rate dp = 0" and "1 \<le> term_months dp" and "0 \<le> loan_amount dp"
    and "monthly_payment dp = loan_amount dp / of_int (term_months dp)"
  shows "(\<forall>m. 1 \<le> m \<and> m \<le> term_months dp \<longrightarrow>
            calculate_debt_service (Some dp) m =
              Inr \<lparr>debt_service.interest_expense = 0,
                   debt_service.principal_payment = monthly_payment dp,
                   remaining_balance =
                     loan_amount dp - monthly_payment dp * of_int (m - 1)\<rparr>) \<and>
         calculate_debt_service (Some dp) (term_months dp) =
           Inr \<lparr>debt_service.interest_expense = 0,
                debt_service.principal_payment = monthly_payment dp,
                remaining_balance = monthly_payment dp\<rparr> \<and>
         (\<forall>m. term_months dp < m \<longrightarrow>
            calculate_debt_service (Some dp) m =
              Inr \<lparr>debt_service.interest_expense = 0, debt_service.principal_payment = 0,
                   remaining_balance = 0\<rparr>)"
proof -
  let ?t = "of_int (term_months dp) :: real"
  have t: "0 < ?t"
    using assms(2) by simp
  have in_term: "calculate_debt_service (Some dp) m =
           Inr \<lparr>debt_service.interest_expense = 0,
                debt_service.principal_payment = monthly_payment dp,
                remaining_balance = loan_amount dp - monthly_payment dp * of_int (m - 1)\<rparr>"
    if m: "1 \<le> m" "m \<le> term_months dp" for m
  proof -
    let ?k = "of_int (m - 1) :: real"
    have k: "?k \<le> ?t"
      using m(2) by simp
    have "?k * loan_amount dp \<le> ?t * loan_amount dp"
      using k assms(3) by (rule mult_right_mono)
    then have "loan_amount dp / ?t * ?k \<le> loan_amount dp"
      using t by (simp add: field_simps)
    then have "0 \<le> loan_amount dp - monthly_payment dp * ?k"
      using assms(4) by simp
    then show ?thesis
      using assms(1) m by (simp add: calculate_debt_service_def Let_def max_def)
  qed
  have last: "loan_amount dp - monthly_payment dp * of_int (term_months dp - 1)
                = monthly_payment dp"
    using t assms(4) by (simp add: field_simps)
  have at_term: "calculate_debt_service (Some dp) (term_months dp) =
           Inr \<lparr>debt_service.interest_expense = 0,
                debt_service.principal_payment = monthly_payment dp,
                remaining_balance = monthly_payment dp\<rparr>"
    using in_term [of "term_months dp"] assms(2) last by simp
  have after_term: "calculate_debt_service (Some dp) m =
           Inr \<lparr>debt_service.interest_expense = 0, debt_service.principal_payment = 0,
                remaining_balance = 0\<rparr>"
    if "term_months dp < m" for m
    using that by (simp add: calculate_debt_service_def no_debt_service_def)
  from in_term at_term after_term show ?thesis
    by blast
qed

theorem zero_interest_amortization_witness:
  "interest_rate zero_rate_loan = 0 \<and> 1 \<le> term_months zero_rate_loan \<and>
   0 \<le> loan_amount zero_rate_loan \<and>
   monthly_payment zero_rate_loan
     = loan_amount zero_rate_loan / of_int (term_months zero_rate_loan) \<and>
   (1::int) \<le> 3 \<and> 3 \<le> term_months zero_rate_loan \<and>
   calculate_debt_service (Some zero_rate_loan) 3 =
     Inr \<lparr>debt_service.interest_expense = 0, debt_service.principal_payment = 100,
          remaining_balance = 1000\<rparr> \<and>
   calculate_debt_service (Some zero_rate_loan) 12 =
     Inr \<lparr>debt_service.interest_expense = 0, debt_service.principal_payment = 100,
          remaining_balance = 100\<rparr> \<and>
   term_months zero_rate_loan < 14 \<and>
   calculate_debt_service (Some zero_rate_loan) 14 =
     Inr \<lparr>debt_service.interest_expense = 0, debt_service.principal_payment = 0,
          remaining_balance = 0\<rparr>"
proof -
  have hyps: "interest_rate zero_rate_loan = 0" "1 \<le> term_months zero_rate_loan"
    "0 \<le> loan_amount zero_rate_loan"
    "monthly_payment zero_rate_loan
       = loan_amount zero_rate_loan / of_int (term_months zero_rate_loan)"
    by (simp_all add: zero_rate_loan_def)
  note za = zero_interest_amortization [OF hyps]
  have m3: "(1::int) \<le> 3 \<and> 3 \<le> term_months zero_rate_loan"
    and m14: "term_months zero_rate_loan < 14"
    by (simp_all add: zero_rate_loan_def)
  from za m3 have "calculate_debt_service (Some zero_rate_loan) 3 =
     Inr \<lparr>debt_service.interest_expense = 0,
          debt_service.principal_payment = monthly_payment zero_rate_loan,
          remaining_balance =
            loan_amount zero_rate_loan - monthly_payment zero_rate_loan * of_int (3 - 1)\<rparr>"
    by blast
  moreover from za m14 have "calculate_debt_service (Some zero_rate_loan) 14 =
     Inr \<lparr>debt_service.interest_expense = 0, debt_service.principal_payment = 0,
          remaining_balance = 0\<rparr>"
    by blast
  moreover from za have "calculate_debt_service (Some zero_rate_loan) (term_months zero_rate_loan) =
     Inr \<lparr>debt_service.interest_expense = 0,
          debt_service.principal_payment = monthly_payment zero_rate_loan,
          remaining_balance = monthly_payment zero_rate_loan\<rparr>"
    by blast
  ultimately show ?thesis
    using hyps m3 m14 by (simp add: zero_rate_loan_def)
qed

text \<open>
  The claim as the specification words it, that the balance is 0 at
  \<open>month = term_months\<close>, fails: the loan of 1200 over 12 months without interest, paid
  back 100 a month, still has 100 outstanding in month 12.
\<close>

theorem zero_interest_balance_at_term_counterexample:
  "interest_rate zero_rate_loan = 0 \<and>
   monthly_payment zero_rate_loan
     = loan_amount zero_rate_loan / of_int (term_months zero_rate_loan) \<and>
   calculate_debt_service (Some zero_rate_loan) (term_months zero_rate_loan) =
     Inr \<lparr>debt_service.interest_expense = 0, debt_service.principal_payment = 100,
          remaining_balance = 100\<rparr>"
  by (simp add: zero_rate_loan_def calculate_debt_service_def Let_def)

text \<open>
  C4. The guard of the liquidity ratios, as the code has it: the denominator of
  \<open>current_ratio\<close> and \<open>quick_ratio\<close> is \<open>ap\<close> whenever \<open>ap\<close> is positive and 1
  otherwise; this is the maximum of \<open>ap\<close> and 1 when \<open>ap \<le> 0\<close> or \<open>1 \<le> ap\<close>.
\<close>

theorem liquidity_ratio_guard:
  "tier1_metrics.current_ratio (calculate_tier1_metrics rv eb a i p c ox)
     = (a + i + c) / (if p > 0 then p else 1) \<and>
   tier1_metrics.quick_ratio (calculate_tier1_metrics rv eb a i p c ox)
     = (a + i + c - i) / (if p > 0 then p else 1) \<and>
   (p \<le> 0 \<or> 1 \<le> p \<longrightarrow> (if p > 0 then p else 1) = max p 1)"
  by (simp add: calculate_tier1_metrics_def Let_def max_def)

theorem liquidity_ratio_guard_witness:
  "tier1_metrics.current_ratio (calculate_tier1_metrics 0 0 1 1 2 1 0) = 3 / 2 \<and>
   tier1_metrics.quick_ratio (calculate_tier1_metrics 0 0 1 1 2 1 0) = 1 \<and>
   (1::real) \<le> 2 \<and> (if (2::real) > 0 then 2 else 1) = max 2 (1::real)"
  using liquidity_ratio_guard [of 0 0 1 1 2 1 0]
  by simp

text \<open>
  With payables of one half the denominator is one half, not the maximum of one half
  and 1: the code returns the current ratio 6 where the formula with the maximum gives 3.
\<close>

theorem liquidity_ratio_max_counterexample:
  "tier1_metrics.current_ratio (calculate_tier1_metrics 0 0 1 1 (1 / 2) 1 0) = 6 \<and>
   (1 + 1 + 1) / max (1 / 2) (1::real) = 3 \<and>
   tier1_metrics.quick_ratio (calculate_tier1_metrics 0 0 1 1 (1 / 2) 1 0) = 4 \<and>
   (1 + 1 + 1 - 1) / max (1 / 2) (1::real) = 2"
  by (simp add: calculate_tier1_metrics_def Let_def)


text \<open>
  C5. The baseline of month 0: whenever the run returns its rows for a month count that
  is not negative, the first row is the row of month 0, its \<open>delta_wc\<close>,
  \<open>delta_ar\<close>, \<open>delta_inventory\<close> and \<open>delta_ap\<close> are 0, and its cash balance is the
  opening cash of the inputs (0 when the key is absent).
\<close>

theorem month_0_baseline:
  assumes "generate_monthly_projections inputs N d = Inr rs" and "0 \<le> N"
  shows "rs \<noteq> [] \<and> month (rs ! 0) = 0 \<and>
         delta_wc (rs ! 0) = 0 \<and> delta_ar (rs ! 0) = 0 \<and>
         delta_inventory (rs ! 0) = 0 \<and> delta_ap (rs ! 0) = 0 \<and>
         month_record.cash_balance (rs ! 0) = get_default (opening_cash inputs) 0"
proof -
  from generate_first [OF assms] obtain st1 rs' where
    step: "month_step inputs d (initial_state inputs) 0 = Inr (rs ! 0, st1)" and
    rs: "rs = (rs ! 0) # rs'"
    by blast
  have "rs \<noteq> []"
    using rs by (cases rs) simp_all
  moreover have "month (rs ! 0) = 0"
    using step by (rule month_step_month)
  moreover have "loop_state.cash_balance (initial_state inputs)
                   = get_default (opening_cash inputs) 0"
    by (simp add: initial_state_def Let_def)
  ultimately show ?thesis
    using month_step_zero [OF step] by simp
qed

theorem month_0_baseline_witness:
  "generate_monthly_projections example_inputs 1 None = Inr [example_month_0, example_month_1] \<and>
   (0::int) \<le> 1 \<and>
   month ([example_month_0, example_month_1] ! 0) = 0 \<and>
   delta_wc ([example_month_0, example_month_1] ! 0) = 0 \<and>
   delta_ar ([example_month_0, example_month_1] ! 0) = 0 \<and>
   delta_inventory ([example_month_0, example_month_1] ! 0) = 0 \<and>
   delta_ap ([example_month_0, example_month_1] ! 0) = 0 \<and>
   month_record.cash_balance ([example_month_0, example_month_1] ! 0) = 100000"
  using month_0_baseline [OF example_projection] example_projection
  by (simp add: example_inputs_def get_default_def)

text \<open>
  C6. The clamp of the cost ratio: in every returned row the cost of goods sold is the
  revenue of the row times \<open>min (cogs_pct * (1 + cogs_increase) ^ month) 0.95\<close>; this
  fraction is at most 0.95, so a row whose revenue is not negative has
  \<open>cogs \<le> 0.95 * revenue\<close>.
\<close>

theorem cogs_clamp:
  assumes "generate_monthly_projections inputs N d = Inr rs" and "r \<in> set rs"
  shows "cogs r = month_record.revenue r *
           min (cogs_pct inputs * ((1 + get_default (cogs_increase inputs) 0) powi month r))
             0.95 \<and>
         min (cogs_pct inputs * ((1 + get_default (cogs_increase inputs) 0) powi month r))
             0.95 \<le> (0.95::real) \<and>
         (0 \<le> month_record.revenue r \<longrightarrow> cogs r \<le> 0.95 * month_record.revenue r)"
proof -
  let ?pct = "min (cogs_pct inputs * ((1 + get_default (cogs_increase inputs) 0) powi month r))
                (0.95::real)"
  from generate_row [OF assms] obtain st0 st1 where
    "month_step inputs d st0 (month r) = Inr (r, st1)"
    by blast
  then have eq: "cogs r = month_record.revenue r * ?pct"
    by (rule month_step_cogs)
  have le: "?pct \<le> 0.95"
    by simp
  have "cogs r \<le> 0.95 * month_record.revenue r" if "0 \<le> month_record.revenue r"
  proof -
    have "month_record.revenue r * ?pct \<le> month_record.revenue r * 0.95"
      using le that by (rule mult_left_mono)
    then show ?thesis
      using eq by (simp add: mult.commute)
  qed
  with eq le show ?thesis
    by blast
qed

theorem cogs_clamp_witness:
  "generate_monthly_projections example_inputs 1 None = Inr [example_month_0, example_month_1] \<and>
   example_month_1 \<in> set [example_month_0, example_month_1] \<and>
   0 \<le> month_record.revenue example_month_1 \<and>
   cogs example_month_1 \<le> 0.95 * month_record.revenue example_month_1"
  using cogs_clamp [OF example_projection, of example_month_1] example_projection
  by (simp add: example_month_1_def)

text \<open>
  C7. Shape and order of the output, as the code has it: for a month count \<open>N\<close> of at
  least \<open>-1\<close> (so for every month count the contract allows), whenever the run returns
  a table, the table has exactly \<open>N + 1\<close> rows, and their month fields are
  0, 1, ..., \<open>N\<close> in this order.
\<close>

theorem projection_shape:
  assumes "generate_monthly_projections inputs N d = Inr rs" and "- 1 \<le> N"
  shows "int (length rs) = N + 1 \<and> map month rs = [0..N]"
proof -
  have months: "map month rs = [0..N]"
    using assms(1) by (rule generate_months)
  then have "length rs = length [0..N]"
    by (metis length_map)
  then have "int (length rs) = N + 1"
    using assms(2) by simp
  with months show ?thesis
    by simp
qed

theorem projection_shape_witness:
  "generate_monthly_projections example_inputs 1 None = Inr [example_month_0, example_month_1] \<and>
   (- 1 :: int) \<le> 1 \<and>
   int (length [example_month_0, example_month_1]) = 1 + 1 \<and>
   map month [example_month_0, example_month_1] = [0, 1]"
  using projection_shape [OF example_projection] example_projection upto_0_1
  by simp

text \<open>
  The claim as the specification words it, for every input and every month count, fails
  twice. A loan at the annual rate \<open>-12\<close> has the monthly rate \<open>-1\<close>, and the annuity
  formula of month 1 raises \<^verbatim>\<open>0.0 ** -12\<close>: the run returns no table at all. And for
  the month count \<open>-2\<close> the range of the loop is empty: the run returns no row, where
  \<open>N + 1\<close> is \<open>-1\<close>.
\<close>

theorem projection_shape_counterexample:
  "generate_monthly_projections example_inputs 1 (Some degenerate_loan) = Inl ZeroDivisionError \<and>
   generate_monthly_projections example_inputs (- 2) None = Inr [] \<and>
   int (length ([] :: month_record list)) \<noteq> - 2 + 1"
proof -
  have "generate_monthly_projections example_inputs 1 (Some degenerate_loan)
          = Inl ZeroDivisionError"
    by (simp add: generate_error degenerate_loan_def)
  moreover have "[0..(- 2 :: int)] = []"
    by simp
  then have "generate_monthly_projections example_inputs (- 2) None = Inr []"
    by (simp add: generate_monthly_projections_def)
  ultimately show ?thesis
    by simp
qed

text \<open>
  C8. The two ways to the free cash flow agree: in every returned row
  \<open>ebit_after_tax = ebit_after_interest * (1 - tax_rate)\<close>, the free cash flow is the
  value of \<^verbatim>\<open>calculate_fcf\<close> at \<open>ebit_after_interest\<close>, and it equals
  \<open>ebit_after_tax + depreciation - capex - delta_wc\<close>.
\<close>

theorem fcf_tax_path_equivalence:
  assumes "generate_monthly_projections inputs N d = Inr rs" and "r \<in> set rs"
  shows "fcf r = ebit_after_tax r + depreciation inputs - capex inputs - delta_wc r \<and>
         fcf r = calculate_fcf (ebit_after_interest r) (tax_rate inputs)
                   (depreciation inputs) (capex inputs) (delta_wc r) \<and>
         ebit_after_tax r = ebit_after_interest r * (1 - tax_rate inputs)"
proof -
  from generate_row [OF assms] obtain st0 st1 where
    "month_step inputs d st0 (month r) = Inr (r, st1)"
    by blast
  from month_step_fcf [OF this] show ?thesis
    by (simp add: calculate_fcf_def Let_def)
qed

theorem fcf_tax_path_equivalence_witness:
  "generate_monthly_projections example_inputs 1 None = Inr [example_month_0, example_month_1] \<and>
   example_month_1 \<in> set [example_month_0, example_month_1] \<and>
   fcf example_month_1 = ebit_after_tax example_month_1 + depreciation example_inputs
                           - capex example_inputs - delta_wc example_month_1"
  using fcf_tax_path_equivalence [OF example_projection, of example_month_1] example_projection
  by simp


text \<open>
  C9. Applying a scenario again compounds: for every parameter record, the conservative
  adjustment applied twice differs from the adjustment applied once (it adds 20 to
  \<open>ar_days\<close>, where once adds 10), and so does the aggressive adjustment (it adds 20 to
  \<open>ap_days\<close>). The adjustment is not idempotent for any record, hence for some.
\<close>

theorem scenario_reapplication_compounds:
  "apply_scenario_adjustments (apply_scenario_adjustments b ''conservative'') ''conservative''
     \<noteq> apply_scenario_adjustments b ''conservative'' \<and>
   ar_days (apply_scenario_adjustments b ''conservative'') = ar_days b + 10 \<and>
   ar_days (apply_scenario_adjustments
              (apply_scenario_adjustments b ''conservative'') ''conservative'')
     = ar_days b + 20 \<and>
   apply_scenario_adjustments (apply_scenario_adjustments b ''aggressive'') ''aggressive''
     \<noteq> apply_scenario_adjustments b ''aggressive'' \<and>
   ap_days (apply_scenario_adjustments b ''aggressive'') = ap_days b + 10 \<and>
   ap_days (apply_scenario_adjustments
              (apply_scenario_adjustments b ''aggressive'') ''aggressive'')
     = ap_days b + 20"
proof -
  let ?c1 = "apply_scenario_adjustments b ''conservative''"
  let ?c2 = "apply_scenario_adjustments ?c1 ''conservative''"
  let ?a1 = "apply_scenario_adjustments b ''aggressive''"
  let ?a2 = "apply_scenario_adjustments ?a1 ''aggressive''"
  have c1: "ar_days ?c1 = ar_days b + 10"
    by (simp add: apply_scenario_adjustments_def)
  have c2: "ar_days ?c2 = ar_days b + 20"
    by (simp add: apply_scenario_adjustments_def)
  have a1: "ap_days ?a1 = ap_days b + 10"
    by (simp add: apply_scenario_adjustments_def)
  have a2: "ap_days ?a2 = ap_days b + 20"
    by (simp add: apply_scenario_adjustments_def)
  have "?c2 \<noteq> ?c1"
  proof
    assume "?c2 = ?c1"
    then have "ar_days ?c2 = ar_days ?c1" by simp
    with c1 c2 show False by simp
  qed
  moreover have "?a2 \<noteq> ?a1"
  proof
    assume "?a2 = ?a1"
    then have "ap_days ?a2 = ap_days ?a1" by simp
    with a1 a2 show False by simp
  qed
  ultimately show ?thesis
    using c1 c2 a1 a2 by blast
qed

text \<open>
  C10. The defaults of the optional keys: a run on inputs without the key
  \<^verbatim>\<open>price_increase\<close> returns what the run on the same inputs with
  \<open>price_increase = 0\<close> returns, and likewise for \<^verbatim>\<open>cogs_increase\<close>,
  \<^verbatim>\<open>opex_increase\<close> and \<^verbatim>\<open>opening_cash\<close>, whatever the other keys are.
\<close>

theorem omitted_keys_default_to_zero:
  "generate_monthly_projections (inputs\<lparr>price_increase := None\<rparr>) N d
     = generate_monthly_projections (inputs\<lparr>price_increase := Some 0\<rparr>) N d \<and>
   generate_monthly_projections (inputs\<lparr>cogs_increase := None\<rparr>) N d
     = generate_monthly_projections (inputs\<lparr>cogs_increase := Some 0\<rparr>) N d \<and>
   generate_monthly_projections (inputs\<lparr>opex_increase := None\<rparr>) N d
     = generate_monthly_projections (inputs\<lparr>opex_increase := Some 0\<rparr>) N d \<and>
   generate_monthly_projections (inputs\<lparr>opening_cash := None\<rparr>) N d
     = generate_monthly_projections (inputs\<lparr>opening_cash := Some 0\<rparr>) N d"
proof (intro conjI)
  show "generate_monthly_projections (inputs\<lparr>price_increase := None\<rparr>) N d
     = generate_monthly_projections (inputs\<lparr>price_increase := Some 0\<rparr>) N d"
    by (rule generate_cong [OF month_step_price_increase initial_state_price_increase])
  show "generate_monthly_projections (inputs\<lparr>cogs_increase := None\<rparr>) N d
     = generate_monthly_projections (inputs\<lparr>cogs_increase := Some 0\<rparr>) N d"
    by (rule generate_cong [OF month_step_cogs_increase initial_state_cogs_increase])
  show "generate_monthly_projections (inputs\<lparr>opex_increase := None\<rparr>) N d
     = generate_monthly_projections (inputs\<lparr>opex_increase := Some 0\<rparr>) N d"
    by (rule generate_cong [OF month_step_opex_increase initial_state_opex_increase])
  show "generate_monthly_projections (inputs\<lparr>opening_cash := None\<rparr>) N d
     = generate_monthly_projections (inputs\<lparr>opening_cash := Some 0\<rparr>) N d"
    by (rule generate_cong [OF month_step_opening_cash initial_state_opening_cash])
qed

end
